theory Spec2Isabelle
  imports Complex_Main
begin

section \<open>Numbers\<close>

text \<open>
  The script computes with JavaScript numbers. They are modelled as mathematical reals:
  coordinates, scales and device pixel ratios are \<^typ>\<open>real\<close>, raster coordinates and
  sizes are \<^typ>\<open>int\<close>, element sizes that the DOM reports as unsigned are \<^typ>\<open>nat\<close>.
  Rounding error, \<open>NaN\<close> and the infinities are outside the model; every division of the
  source is used below only where its divisor is non-zero, where the real quotient is the
  exact value that the floating-point quotient approximates.

  \<open>Math.round\<close> rounds to the nearest integer, a tie going up.
\<close>

definition Math_round :: "real \<Rightarrow> int" where
  "Math_round v = \<lfloor>v + 1 / 2\<rfloor>"

section \<open>The zoom engine\<close>

text \<open>
  \<open>const zoom = { scale: 1, tx: 0, ty: 0, fitScale: 1 }\<close>: the view transform, in the
  coordinate system of \<open>transform-origin: 0 0\<close>.
\<close>

record zoom =
  scale :: real
  tx :: real
  ty :: real
  fitScale :: real

definition zoom_init :: zoom where
  "zoom_init = \<lparr>scale = 1, tx = 0, ty = 0, fitScale = 1\<rparr>"

text \<open>The element \<open>zoom-viewport\<close> (the container) and the element \<open>snapshot-img\<close>.\<close>

record viewport =
  clientWidth :: nat
  clientHeight :: nat

record snapshot_img =
  naturalWidth :: nat
  naturalHeight :: nat

text \<open>
  \<open>applyTransform\<close> writes the transform to the image element and the percentage to the
  zoom label. It reads \<open>zoom\<close> and changes nothing of it, so it is the function from the
  transform to what is displayed: the translation, the scale and the label's number.
\<close>

definition applyTransform :: "zoom \<Rightarrow> (real \<times> real \<times> real) \<times> int" where
  "applyTransform z = ((tx z, ty z, scale z), Math_round (scale z * 100))"

text \<open>
  \<open>zoomFit\<close>: returns at once when \<open>img.naturalWidth\<close> is falsy (zero); otherwise the fit
  scale is the smaller of the two ratios, at most 1, and the image is centred.
\<close>

definition zoomFit :: "viewport \<Rightarrow> snapshot_img \<Rightarrow> zoom \<Rightarrow> zoom" where
  "zoomFit vp img z =
     (if naturalWidth img = 0 then z
      else
        let scaleX = real (clientWidth vp) / real (naturalWidth img);
            scaleY = real (clientHeight vp) / real (naturalHeight img);
            z1 = z\<lparr>fitScale := min (min scaleX scaleY) 1\<rparr>;
            z2 = z1\<lparr>scale := fitScale z1\<rparr>;
            z3 = z2\<lparr>tx := (real (clientWidth vp) - real (naturalWidth img) * scale z2) / 2\<rparr>
        in z3\<lparr>ty := (real (clientHeight vp) - real (naturalHeight img) * scale z3) / 2\<rparr>)"

text \<open>\<open>zoomAtPoint\<close>: zoom with the viewport point \<open>(vpX, vpY)\<close> as the anchor.\<close>

definition zoomAtPoint :: "real \<Rightarrow> real \<Rightarrow> real \<Rightarrow> zoom \<Rightarrow> zoom" where
  "zoomAtPoint newScale vpX vpY z =
     (let MIN_SCALE = 5 / 100; MAX_SCALE = 10;
          newScale' = max MIN_SCALE (min MAX_SCALE newScale);
          imgX = (vpX - tx z) / scale z;
          imgY = (vpY - ty z) / scale z
      in z\<lparr>tx := vpX - imgX * newScale', ty := vpY - imgY * newScale', scale := newScale'\<rparr>)"

text \<open>\<open>zoomBy\<close>: zoom with the centre of the viewport as the anchor.\<close>

definition zoomBy :: "viewport \<Rightarrow> real \<Rightarrow> zoom \<Rightarrow> zoom" where
  "zoomBy vp factor z =
     (let centerX = real (clientWidth vp) / 2;
          centerY = real (clientHeight vp) / 2
      in zoomAtPoint (scale z * factor) centerX centerY z)"

subsection \<open>Wheel, drag and double click\<close>

text \<open>
  \<open>initZoomInteraction\<close> registers five listeners that share the local variable \<open>drag\<close>
  (\<open>null\<close>, or the cursor position and the translation at the moment the button went
  down). The viewer's state is the transform, \<open>drag\<close> and the class \<open>dragging\<close> of the
  viewport element.
\<close>

record drag =
  startX :: real
  startY :: real
  tx0 :: real
  ty0 :: real

record viewer =
  view :: zoom
  dragState :: "drag option"
  dragging :: bool

datatype mouse_event =
    Wheel real real real real real
  | MouseDown int real real
  | MouseMove real real
  | MouseUp
  | DblClick

text \<open>
  \<open>Wheel deltaY clientX clientY rectLeft rectTop\<close> carries the event's fields and the
  left and top of the viewport's bounding box; \<open>MouseDown button clientX clientY\<close> and
  \<open>MouseMove clientX clientY\<close> carry the event's fields.
\<close>

fun handle_event :: "viewport \<Rightarrow> snapshot_img \<Rightarrow> viewer \<Rightarrow> mouse_event \<Rightarrow> viewer" where
  "handle_event vp img v (Wheel deltaY clientX clientY rectLeft rectTop) =
     (let factor = (if deltaY < 0 then 112 / 100 else 1 / (112 / 100))
      in v\<lparr>view := zoomAtPoint (scale (view v) * factor) (clientX - rectLeft) (clientY - rectTop) (view v)\<rparr>)"
| "handle_event vp img v (MouseDown button clientX clientY) =
     (if button \<noteq> 0 then v
      else v\<lparr>dragState := Some \<lparr>startX = clientX, startY = clientY,
                                 tx0 = tx (view v), ty0 = ty (view v)\<rparr>,
             dragging := True\<rparr>)"
| "handle_event vp img v (MouseMove clientX clientY) =
     (case dragState v of
        None \<Rightarrow> v
      | Some d \<Rightarrow>
          let z1 = (view v)\<lparr>tx := tx0 d + (clientX - startX d)\<rparr>;
              z2 = z1\<lparr>ty := ty0 d + (clientY - startY d)\<rparr>
          in v\<lparr>view := z2\<rparr>)"
| "handle_event vp img v MouseUp = v\<lparr>dragState := None, dragging := False\<rparr>"
| "handle_event vp img v DblClick = v\<lparr>view := zoomFit vp img (view v)\<rparr>"

fun handle_events :: "viewport \<Rightarrow> snapshot_img \<Rightarrow> viewer \<Rightarrow> mouse_event list \<Rightarrow> viewer" where
  "handle_events vp img v [] = v"
| "handle_events vp img v (e # es) = handle_events vp img (handle_event vp img v e) es"

section \<open>Raster images and cropping\<close>

text \<open>
  A raster image has a width, a height and a pixel at every raster coordinate; the pixel
  function is read only inside the bounds. A canvas is a raster image too. The pixel type
  is left open; its \<open>0\<close> is the transparent black of a fresh canvas.
\<close>

record 'p image =
  img_width :: int
  img_height :: int
  pixels :: "int \<Rightarrow> int \<Rightarrow> 'p"

text \<open>
  A data URL is a string. What the script does with it depends on three cases only: the
  empty string (falsy), a string that the image decoder rejects (\<open>img.onerror\<close>), and the
  lossless PNG encoding of an image, which decodes to that image (\<open>img.onload\<close>).
\<close>

datatype 'p data_url = EmptyUrl | Undecodable | Png "'p image"

text \<open>
  The object that \<open>scrollAndGetRect\<close> resolves with and \<open>cropImage\<close> receives: the fields
  \<open>x\<close>, \<open>y\<close>, \<open>width\<close>, \<open>height\<close>, \<open>fullWidth\<close>, \<open>fullHeight\<close> and \<open>devicePixelRatio\<close>, in
  CSS pixels of the viewport.
\<close>

record viewport_rect =
  rect_x :: real
  rect_y :: real
  rect_width :: real
  rect_height :: real
  fullWidth :: real
  fullHeight :: real
  devicePixelRatio :: real

text \<open>
  The failures of the pipeline, one per \<open>Error\<close> that the script constructs (their messages
  are fixed strings), and \<open>Message\<close> for a message taken over from a collaborator:
  the target is not found; its size is zero; the capture returned no image data; the crop
  region lies outside the captured image; the captured image failed to load.
\<close>

datatype failure = NotFound | ZeroSize | NoImageData | OutOfBounds | DecodeError | Message string

text \<open>\<open>document.createElement('canvas')\<close> with its width and height set: all transparent.\<close>

definition createCanvas :: "int \<Rightarrow> int \<Rightarrow> ('p::zero) image" where
  "createCanvas w h = \<lparr>img_width = w, img_height = h, pixels = (\<lambda>i j. 0)\<rparr>"

text \<open>
  The platform's \<open>ctx.drawImage(img, sx, sy, sw, sh, dx, dy, dw, dh)\<close> for \<open>dw = sw\<close> and
  \<open>dh = sh\<close>, the only way the script calls it: the destination is as large as the source
  rectangle, so every destination pixel is one source pixel, unchanged. The part of the
  source rectangle outside the source image is clipped away and leaves the canvas as it
  was, as does the part of the destination outside the canvas.
\<close>

definition drawImage ::
  "'p image \<Rightarrow> int \<Rightarrow> int \<Rightarrow> int \<Rightarrow> int \<Rightarrow> int \<Rightarrow> int \<Rightarrow> 'p image \<Rightarrow> 'p image" where
  "drawImage img sx sy sw sh dx dy canvas =
     canvas\<lparr>pixels := (\<lambda>i j.
       if dx \<le> i \<and> i < dx + sw \<and> dy \<le> j \<and> j < dy + sh
          \<and> 0 \<le> i \<and> i < img_width canvas \<and> 0 \<le> j \<and> j < img_height canvas
          \<and> 0 \<le> sx + (i - dx) \<and> sx + (i - dx) < img_width img
          \<and> 0 \<le> sy + (j - dy) \<and> sy + (j - dy) < img_height img
       then pixels img (sx + (i - dx)) (sy + (j - dy))
       else pixels canvas i j)\<rparr>"

text \<open>
  \<open>cropImage\<close>: the promise rejects when the image fails to load and when the clamped
  size is not positive; otherwise it resolves with the PNG data URL of the canvas.
  \<open>rect.devicePixelRatio || 1\<close> replaces a ratio of zero by 1.
\<close>

definition cropImage :: "('p::zero) data_url \<Rightarrow> viewport_rect \<Rightarrow> failure + 'p data_url" where
  "cropImage dataUrl rect =
     (case dataUrl of
        Png img \<Rightarrow>
          let dpr = (if devicePixelRatio rect = 0 then 1 else devicePixelRatio rect);
              sx = Math_round (rect_x rect * dpr);
              sy = Math_round (rect_y rect * dpr);
              sw = Math_round (rect_width rect * dpr);
              sh = Math_round (rect_height rect * dpr);
              clampedSw = min sw (img_width img - sx);
              clampedSh = min sh (img_height img - sy)
          in if clampedSw \<le> 0 \<or> clampedSh \<le> 0 then Inl OutOfBounds
             else Inr (Png (drawImage img sx sy clampedSw clampedSh 0 0
                              (createCanvas clampedSw clampedSh)))
      | _ \<Rightarrow> Inl DecodeError)"

section \<open>Locating the target in the page\<close>

text \<open>
  What the injected function reads in the page once the scroll has settled: the bounding
  boxes of the document's iframes in document order (\<open>getBoundingClientRect\<close>), the size of
  the window and its device pixel ratio.
\<close>

record dom_rect =
  box_left :: real
  box_top :: real
  box_right :: real
  box_bottom :: real
  box_width :: real
  box_height :: real

record page =
  iframes :: "dom_rect list"
  innerWidth :: real
  innerHeight :: real
  window_devicePixelRatio :: real

text \<open>
  \<open>scrollAndGetRect\<close>: \<open>null\<close> when the document has no iframe at the index, else the
  intersection of the iframe's box with the viewport.
\<close>

definition scrollAndGetRect :: "page \<Rightarrow> int \<Rightarrow> viewport_rect option" where
  "scrollAndGetRect pg index =
     (if index < 0 \<or> int (length (iframes pg)) \<le> index then None
      else
        let rect = iframes pg ! nat index;
            x = max (box_left rect) 0;
            y = max (box_top rect) 0;
            r = min (box_right rect) (innerWidth pg);
            b = min (box_bottom rect) (innerHeight pg)
        in Some \<lparr>rect_x = x, rect_y = y,
                 rect_width = real_of_int (Math_round (r - x)),
                 rect_height = real_of_int (Math_round (b - y)),
                 fullWidth = real_of_int (Math_round (box_width rect)),
                 fullHeight = real_of_int (Math_round (box_height rect)),
                 devicePixelRatio =
                   (if window_devicePixelRatio pg = 0 then 1 else window_devicePixelRatio pg)\<rparr>)"

section \<open>The capture pipeline\<close>

subsection \<open>The popup's state\<close>

text \<open>What the element \<open>snapshot-size-hint\<close> shows: the usage hint, the size of the
  snapshot, or the failure message.\<close>

datatype hint = HintUsage | HintSize nat nat | HintFailed failure

text \<open>
  The globals of the popup script and the parts of its document that the pipeline reads or
  writes: the number of scanned iframes (\<open>iframeList.length\<close>), the source and the load
  handler of the element \<open>snapshot-img\<close>, the view transform and its container, the
  capture button's \<open>disabled\<close> flag and its classes \<open>btn-full\<close> and \<open>btn-sm\<close>, and the class
  \<open>hidden\<close> of four elements. The load handler is the \<open>resolve\<close> of one invocation of
  \<open>handleCapture\<close>; invocations are numbered in the order of their calls.
\<close>

record 'p popup =
  iframeCount :: nat
  currentTabId :: "int option"
  currentWindowId :: "int option"
  activeModalIndex :: int
  lastSnapshotUrl :: "'p data_url"
  img_src :: "'p data_url"
  img_onload :: "nat option"
  zoomState :: zoom
  zoomViewport :: viewport
  btn_capture_disabled :: bool
  btn_capture_full :: bool
  btn_capture_sm :: bool
  snap_idle_hidden :: bool
  snap_loading_hidden :: bool
  zoom_viewport_hidden :: bool
  zoom_controls_hidden :: bool
  size_hint :: hint

definition resetSnapshotPanel :: "'p popup \<Rightarrow> 'p popup" where
  "resetSnapshotPanel s =
     s\<lparr>snap_idle_hidden := False, snap_loading_hidden := True,
       zoom_viewport_hidden := True, zoom_controls_hidden := True,
       btn_capture_full := True, btn_capture_sm := False,
       size_hint := HintUsage, lastSnapshotUrl := EmptyUrl\<rparr>"

text \<open>\<open>openModal\<close> and \<open>closeModal\<close>, as far as they touch this state.\<close>

definition openModal :: "int \<Rightarrow> 'p popup \<Rightarrow> 'p popup" where
  "openModal index s =
     (if index < 0 \<or> int (iframeCount s) \<le> index then s
      else resetSnapshotPanel (s\<lparr>activeModalIndex := index, lastSnapshotUrl := EmptyUrl\<rparr>))"

definition closeModal :: "'p popup \<Rightarrow> 'p popup" where
  "closeModal s = s\<lparr>activeModalIndex := - 1\<rparr>"

text \<open>The natural size of the image element: that of the image its source decodes to.\<close>

definition snapshot_img_of :: "'p data_url \<Rightarrow> snapshot_img" where
  "snapshot_img_of url =
     (case url of
        Png im \<Rightarrow> \<lparr>naturalWidth = nat (img_width im), naturalHeight = nat (img_height im)\<rparr>
      | _ \<Rightarrow> \<lparr>naturalWidth = 0, naturalHeight = 0\<rparr>)"

subsection \<open>One invocation of \<open>handleCapture\<close>\<close>

text \<open>
  \<open>handleCapture\<close> is an \<open>async\<close> function with four \<open>await\<close>s. An invocation is suspended
  at one of them, holding the locals that the rest of the body reads:
  the script injection (holding \<open>captureIndex\<close>), the \<open>CAPTURE_TAB\<close> message (holding
  \<open>rect\<close>), the crop (holding \<open>result.dataUrl\<close> and \<open>rect\<close>), the load of the cropped image
  (holding \<open>croppedUrl\<close>). An invocation reaches \<open>AwaitCaptureTab\<close> by sending the message
  to the capture collaborator, and \<open>AwaitCrop\<close> by calling \<open>cropImage\<close>.
\<close>

datatype 'p task =
    AwaitScript int
  | AwaitCaptureTab viewport_rect
  | AwaitCrop "'p data_url" viewport_rect
  | AwaitImgLoad "'p data_url"

text \<open>The response of the background worker: \<open>{ dataUrl }\<close> or \<open>{ error }\<close>.\<close>

record 'p capture_result =
  result_error :: "string option"
  result_dataUrl :: "'p data_url option"

text \<open>
  What resumes a suspended invocation: the injection rejects with a message, or the
  injected \<open>scrollAndGetRect\<close> has run in a page; the message rejects, or resolves with a
  response or with \<open>undefined\<close>; the promise of \<open>cropImage\<close> settles; the image element
  fires \<open>load\<close>.
\<close>

datatype 'p reply =
    ScriptRejected string
  | ScriptRan page
  | CaptureRejected string
  | CaptureResponse "'p capture_result option"
  | CropSettled
  | ImgLoaded

text \<open>The \<open>catch\<close> block and the \<open>finally\<close> block.\<close>

definition catch_block :: "failure \<Rightarrow> 'p popup \<Rightarrow> 'p popup" where
  "catch_block err s =
     s\<lparr>snap_idle_hidden := False, zoom_controls_hidden := True,
       btn_capture_full := True, btn_capture_sm := False,
       size_hint := HintFailed err\<rparr>"

definition finally_block :: "'p popup \<Rightarrow> 'p popup" where
  "finally_block s = s\<lparr>snap_loading_hidden := True, btn_capture_disabled := False\<rparr>"

definition throw :: "failure \<Rightarrow> 'p popup \<Rightarrow> 'p popup \<times> 'p task option" where
  "throw err s = (finally_block (catch_block err s), None)"

text \<open>
  The call itself, up to the first \<open>await\<close>: it returns at once without an open modal or
  without a tab (\<open>!currentTabId\<close> holds for \<open>null\<close> and for 0).
\<close>

definition handleCapture :: "'p popup \<Rightarrow> 'p popup \<times> 'p task option" where
  "handleCapture s =
     (if activeModalIndex s < 0 \<or> currentTabId s = None \<or> currentTabId s = Some 0 then (s, None)
      else
        (s\<lparr>btn_capture_disabled := True,
           snap_idle_hidden := True, snap_loading_hidden := False,
           zoom_viewport_hidden := True, zoom_controls_hidden := True,
           size_hint := HintUsage\<rparr>,
         Some (AwaitScript (activeModalIndex s))))"

text \<open>
  The body from one \<open>await\<close> to the next, for invocation number \<open>k\<close>. A reply that is not
  the one the invocation waits for leaves it suspended; so does a \<open>load\<close> event when the
  element's handler is no longer this invocation's.
\<close>

fun resume :: "nat \<Rightarrow> ('p::zero) popup \<Rightarrow> 'p task \<Rightarrow> 'p reply \<Rightarrow> 'p popup \<times> 'p task option" where
  "resume k s (AwaitScript captureIndex) (ScriptRejected msg) = throw (Message msg) s"
| "resume k s (AwaitScript captureIndex) (ScriptRan pg) =
     (case scrollAndGetRect pg captureIndex of
        None \<Rightarrow> throw NotFound s
      | Some rect \<Rightarrow>
          if rect_width rect \<le> 0 \<or> rect_height rect \<le> 0 then throw ZeroSize s
          else (s, Some (AwaitCaptureTab rect)))"
| "resume k s (AwaitCaptureTab rect) (CaptureRejected msg) = throw (Message msg) s"
| "resume k s (AwaitCaptureTab rect) (CaptureResponse None) = throw NoImageData s"
| "resume k s (AwaitCaptureTab rect) (CaptureResponse (Some result)) =
     (case result_error result of
        Some (c # cs) \<Rightarrow> throw (Message (c # cs)) s
      | _ \<Rightarrow>
         (case result_dataUrl result of
            None \<Rightarrow> throw NoImageData s
          | Some EmptyUrl \<Rightarrow> throw NoImageData s
          | Some dataUrl \<Rightarrow> (s, Some (AwaitCrop dataUrl rect))))"
| "resume k s (AwaitCrop dataUrl rect) CropSettled =
     (case cropImage dataUrl rect of
        Inl err \<Rightarrow> throw err s
      | Inr croppedUrl \<Rightarrow>
          (s\<lparr>lastSnapshotUrl := croppedUrl, img_onload := Some k, img_src := croppedUrl\<rparr>,
           Some (AwaitImgLoad croppedUrl)))"
| "resume k s (AwaitImgLoad croppedUrl) ImgLoaded =
     (if img_onload s \<noteq> Some k then (s, Some (AwaitImgLoad croppedUrl))
      else
        let img = snapshot_img_of (img_src s);
            s1 = s\<lparr>zoom_viewport_hidden := False,
                   btn_capture_full := False, btn_capture_sm := True,
                   zoom_controls_hidden := False,
                   size_hint := HintSize (naturalWidth img) (naturalHeight img)\<rparr>;
            s2 = s1\<lparr>zoomState := zoomFit (zoomViewport s1) img (zoomState s1)\<rparr>
        in (finally_block s2, None))"
| "resume k s t r = (s, Some t)"

subsection \<open>Interleaved invocations\<close>

text \<open>
  The popup runs on one thread: between two \<open>await\<close>s nothing else runs, and at an
  \<open>await\<close> any other handler may. The system is the popup's state and the continuation
  of every invocation so far (\<open>None\<close> once it has returned). An event opens or closes the
  modal, calls \<open>handleCapture\<close>, or delivers a reply to an invocation.
\<close>

record 'p system =
  popup :: "'p popup"
  tasks :: "'p task option list"

datatype 'p event =
    OpenModal int
  | CloseModal
  | Capture
  | Reply nat "'p reply"

fun exec :: "('p::zero) system \<Rightarrow> 'p event \<Rightarrow> 'p system" where
  "exec sys (OpenModal index) = sys\<lparr>popup := openModal index (popup sys)\<rparr>"
| "exec sys CloseModal = sys\<lparr>popup := closeModal (popup sys)\<rparr>"
| "exec sys Capture =
     (case handleCapture (popup sys) of
        (s', t) \<Rightarrow> sys\<lparr>popup := s', tasks := tasks sys @ [t]\<rparr>)"
| "exec sys (Reply k r) =
     (if length (tasks sys) \<le> k then sys
      else case tasks sys ! k of
             None \<Rightarrow> sys
           | Some t \<Rightarrow>
               (case resume k (popup sys) t r of
                  (s', t') \<Rightarrow> sys\<lparr>popup := s', tasks := (tasks sys)[k := t']\<rparr>))"

fun run :: "('p::zero) system \<Rightarrow> 'p event list \<Rightarrow> 'p system" where
  "run sys [] = sys"
| "run sys (e # es) = run (exec sys e) es"

section \<open>Concrete inputs\<close>

text \<open>A captured viewport of 1600 by 1200 raster pixels whose pixel values tell their
  position, and three rectangles of it at a device pixel ratio of 2 or 1.\<close>

definition demo_shot :: "int image" where
  "demo_shot = \<lparr>img_width = 1600, img_height = 1200, pixels = (\<lambda>i j. i + 1600 * j)\<rparr>"

definition demo_rect :: viewport_rect where
  "demo_rect = \<lparr>rect_x = 10, rect_y = 20, rect_width = 200, rect_height = 100,
                 fullWidth = 200, fullHeight = 100, devicePixelRatio = 2\<rparr>"

definition empty_rect :: viewport_rect where
  "empty_rect = \<lparr>rect_x = 10, rect_y = 20, rect_width = 0, rect_height = 100,
                  fullWidth = 0, fullHeight = 100, devicePixelRatio = 2\<rparr>"

definition wide_rect :: viewport_rect where
  "wide_rect = \<lparr>rect_x = 1500, rect_y = 20, rect_width = 200, rect_height = 100,
                 fullWidth = 200, fullHeight = 100, devicePixelRatio = 1\<rparr>"

text \<open>A container of 800 by 600, an image of 400 by 300 and an image that has not loaded;
  a transform at half scale; a viewer that shows it with no drag going on.\<close>

definition demo_viewport :: viewport where
  "demo_viewport = \<lparr>clientWidth = 800, clientHeight = 600\<rparr>"

definition demo_img :: snapshot_img where
  "demo_img = \<lparr>naturalWidth = 400, naturalHeight = 300\<rparr>"

definition unloaded_img :: snapshot_img where
  "unloaded_img = \<lparr>naturalWidth = 0, naturalHeight = 0\<rparr>"

definition half_zoom :: zoom where
  "half_zoom = \<lparr>scale = 1 / 2, tx = 20, ty = 10, fitScale = 1 / 2\<rparr>"

definition idle_viewer :: viewer where
  "idle_viewer = \<lparr>view = half_zoom, dragState = None, dragging = False\<rparr>"

text \<open>A page whose only iframe lies to the left of an 800 by 600 window.\<close>

definition offscreen_page :: page where
  "offscreen_page =
     \<lparr>iframes = [\<lparr>box_left = - 500, box_top = 0, box_right = - 100, box_bottom = 100,
                   box_width = 400, box_height = 100\<rparr>],
      innerWidth = 800, innerHeight = 600, window_devicePixelRatio = 1\<rparr>"

text \<open>A page whose second iframe is 300 wide and 0 high, and the rectangle reported
  for it.\<close>

definition flat_page :: page where
  "flat_page =
     \<lparr>iframes = [\<lparr>box_left = 10, box_top = 10, box_right = 30, box_bottom = 40,
                   box_width = 20, box_height = 30\<rparr>,
                 \<lparr>box_left = 100, box_top = 50, box_right = 400, box_bottom = 50,
                   box_width = 300, box_height = 0\<rparr>],
      innerWidth = 800, innerHeight = 600, window_devicePixelRatio = 1\<rparr>"

definition flat_rect :: viewport_rect where
  "flat_rect = \<lparr>rect_x = 100, rect_y = 50, rect_width = 300, rect_height = 0,
                 fullWidth = 300, fullHeight = 0, devicePixelRatio = 1\<rparr>"

text \<open>
  A page with two iframes, both visible in a window of 100 by 80; a capture of that window;
  the rectangles of the two iframes and the crops of the capture to them.
\<close>

definition two_iframes :: page where
  "two_iframes =
     \<lparr>iframes = [\<lparr>box_left = 10, box_top = 10, box_right = 30, box_bottom = 40,
                   box_width = 20, box_height = 30\<rparr>,
                 \<lparr>box_left = 50, box_top = 20, box_right = 90, box_bottom = 60,
                   box_width = 40, box_height = 40\<rparr>],
      innerWidth = 100, innerHeight = 80, window_devicePixelRatio = 1\<rparr>"

definition small_shot :: "int image" where
  "small_shot = \<lparr>img_width = 100, img_height = 80, pixels = (\<lambda>i j. i + 100 * j)\<rparr>"

definition rect_A :: viewport_rect where
  "rect_A = \<lparr>rect_x = 10, rect_y = 10, rect_width = 20, rect_height = 30,
              fullWidth = 20, fullHeight = 30, devicePixelRatio = 1\<rparr>"

definition rect_B :: viewport_rect where
  "rect_B = \<lparr>rect_x = 50, rect_y = 20, rect_width = 40, rect_height = 40,
              fullWidth = 40, fullHeight = 40, devicePixelRatio = 1\<rparr>"

definition crop_A :: "int image" where
  "crop_A = drawImage small_shot 10 10 20 30 0 0 (createCanvas 20 30)"

definition crop_B :: "int image" where
  "crop_B = drawImage small_shot 50 20 40 40 0 0 (createCanvas 40 40)"

text \<open>The popup after a scan that found two iframes, with no modal open.\<close>

definition popup0 :: "int popup" where
  "popup0 =
     \<lparr>iframeCount = 2, currentTabId = Some 7, currentWindowId = Some 1,
      activeModalIndex = - 1, lastSnapshotUrl = EmptyUrl, img_src = EmptyUrl,
      img_onload = None, zoomState = zoom_init,
      zoomViewport = \<lparr>clientWidth = 400, clientHeight = 300\<rparr>,
      btn_capture_disabled = False, btn_capture_full = True, btn_capture_sm = False,
      snap_idle_hidden = False, snap_loading_hidden = True,
      zoom_viewport_hidden = True, zoom_controls_hidden = True, size_hint = HintUsage\<rparr>"

definition sys0 :: "int system" where
  "sys0 = \<lparr>popup = popup0, tasks = []\<rparr>"

definition shot_response :: "int reply" where
  "shot_response =
     CaptureResponse (Some \<lparr>result_error = None, result_dataUrl = Some (Png small_shot)\<rparr>)"

text \<open>
  Two overlapping captures: the modal is opened for iframe 0 and capture A (invocation 0)
  starts; the modal is closed and opened for iframe 1 and capture B (invocation 1) starts
  while A is suspended. Both are located and both receive the capture. Then B is cropped
  and its image loads, which ends B. Only after that do A's crop and A's image load arrive.
\<close>

definition both_started :: "int event list" where
  "both_started = [OpenModal 0, Capture, CloseModal, OpenModal 1, Capture]"

definition both_captured :: "int event list" where
  "both_captured =
     [Reply 0 (ScriptRan two_iframes), Reply 1 (ScriptRan two_iframes),
      Reply 0 shot_response, Reply 1 shot_response]"

definition B_completes :: "int event list" where
  "B_completes = both_started @ both_captured @ [Reply 1 CropSettled, Reply 1 ImgLoaded]"

definition A_completes_late :: "int event list" where
  "A_completes_late = B_completes @ [Reply 0 CropSettled, Reply 0 ImgLoaded]"

text \<open>The states of that run after both captures have started, after both have received
  the capture, and after B has ended.\<close>

definition sys_started :: "int system" where
  "sys_started =
     \<lparr>popup = popup0\<lparr>activeModalIndex := 1, btn_capture_disabled := True,
                      snap_idle_hidden := True, snap_loading_hidden := False\<rparr>,
      tasks = [Some (AwaitScript 0), Some (AwaitScript 1)]\<rparr>"

definition sys_captured :: "int system" where
  "sys_captured =
     sys_started\<lparr>tasks := [Some (AwaitCrop (Png small_shot) rect_A),
                            Some (AwaitCrop (Png small_shot) rect_B)]\<rparr>"

definition sys_B_done :: "int system" where
  "sys_B_done =
     \<lparr>popup = popup0\<lparr>activeModalIndex := 1, lastSnapshotUrl := Png crop_B,
                      img_src := Png crop_B, img_onload := Some 1,
                      zoomState := \<lparr>scale = 1, tx = 180, ty = 130, fitScale = 1\<rparr>,
                      btn_capture_full := False, btn_capture_sm := True,
                      snap_idle_hidden := True, zoom_viewport_hidden := False,
                      zoom_controls_hidden := False, size_hint := HintSize 40 40\<rparr>,
      tasks = [Some (AwaitCrop (Png small_shot) rect_A), None]\<rparr>"

section \<open>Rounding\<close>

lemma Math_round_int [simp]: "Math_round (real_of_int n) = n"
  by (simp add: Math_round_def)

lemma Math_round_numeral [simp]: "Math_round (numeral n) = numeral n"
  using Math_round_int [of "numeral n"] by simp

lemma Math_round_neg_numeral [simp]: "Math_round (- numeral n) = - numeral n"
  using Math_round_int [of "- numeral n"] by simp

lemma Math_round_zero [simp]: "Math_round 0 = 0"
  using Math_round_int [of 0] by simp

lemma Math_round_nonneg: "0 \<le> Math_round v \<longleftrightarrow> - 1 / 2 \<le> v"
  unfolding Math_round_def by linarith

section \<open>Properties of cropping\<close>

text \<open>
  Claim C1, as the script has it. Let a rectangle, scaled by its device pixel ratio and
  rounded, lie inside the image: \<open>0 \<le> sx\<close>, \<open>0 \<le> sy\<close>, \<open>sx + sw \<le> width\<close>,
  \<open>sy + sh \<le> height\<close>. If moreover the rounded width and height are positive, then
  \<open>cropImage\<close> resolves with an image of \<open>sw\<close> by \<open>sh\<close> pixels whose pixel at \<open>(i, j)\<close> is
  the source's pixel at \<open>(sx + i, sy + j)\<close>.
\<close>

theorem cropImage_inside_bounds:
  fixes img :: "('p::zero) image"
  assumes "dpr = devicePixelRatio rect"
    and "sx = Math_round (rect_x rect * dpr)" and "sy = Math_round (rect_y rect * dpr)"
    and "sw = Math_round (rect_width rect * dpr)" and "sh = Math_round (rect_height rect * dpr)"
    and "0 \<le> sx" and "0 \<le> sy" and "0 < sw" and "0 < sh"
    and "sx + sw \<le> img_width img" and "sy + sh \<le> img_height img"
  shows "\<exists>out. cropImage (Png img) rect = Inr (Png out)
           \<and> img_width out = sw \<and> img_height out = sh
           \<and> (\<forall>i j. 0 \<le> i \<and> i < sw \<and> 0 \<le> j \<and> j < sh
                  \<longrightarrow> pixels out i j = pixels img (sx + i) (sy + j))"
proof -
  have dpr: "devicePixelRatio rect \<noteq> 0"
  proof
    assume "devicePixelRatio rect = 0"
    with assms(1,4) have "sw = 0" by simp
    with \<open>0 < sw\<close> show False by simp
  qed
  have cw: "min sw (img_width img - sx) = sw" and ch: "min sh (img_height img - sy) = sh"
    using assms by simp_all
  let ?out = "drawImage img sx sy sw sh 0 0 (createCanvas sw sh)"
  have "cropImage (Png img) rect = Inr (Png ?out)"
    using dpr assms(1-5) \<open>0 < sw\<close> \<open>0 < sh\<close> cw ch
    by (simp add: cropImage_def Let_def)
  moreover have "img_width ?out = sw" "img_height ?out = sh"
    by (simp_all add: drawImage_def createCanvas_def)
  moreover have "\<forall>i j. 0 \<le> i \<and> i < sw \<and> 0 \<le> j \<and> j < sh
                  \<longrightarrow> pixels ?out i j = pixels img (sx + i) (sy + j)"
    using assms(6-11) by (simp add: drawImage_def createCanvas_def)
  ultimately show ?thesis by blast
qed

text \<open>The rectangle \<open>{x:10, y:20, width:200, height:100}\<close> at a ratio of 2 on an image of
  1600 by 1200: 400 by 200 pixels from the offset (20, 40).\<close>

theorem cropImage_inside_bounds_witness:
  "(0::int) < 400 \<and> (0::int) < 200 \<and> (20::int) + 400 \<le> img_width demo_shot
   \<and> (40::int) + 200 \<le> img_height demo_shot
   \<and> (\<exists>out. cropImage (Png demo_shot) demo_rect = Inr (Png out)
          \<and> img_width out = 400 \<and> img_height out = 200
          \<and> (\<forall>i j. 0 \<le> i \<and> i < 400 \<and> 0 \<le> j \<and> j < 200
                 \<longrightarrow> pixels out i j = pixels demo_shot (20 + i) (40 + j)))"
  using cropImage_inside_bounds [of 2 demo_rect 20 40 400 200 demo_shot]
  by (simp add: demo_rect_def demo_shot_def)

text \<open>
  C1 as stated fails: a rectangle of width 0 lies inside the image after scaling and
  rounding, and \<open>cropImage\<close> rejects it.
\<close>

theorem cropImage_empty_rect_rejected:
  "0 \<le> Math_round (rect_x empty_rect * devicePixelRatio empty_rect)
   \<and> 0 \<le> Math_round (rect_y empty_rect * devicePixelRatio empty_rect)
   \<and> Math_round (rect_x empty_rect * devicePixelRatio empty_rect)
       + Math_round (rect_width empty_rect * devicePixelRatio empty_rect) \<le> img_width demo_shot
   \<and> Math_round (rect_y empty_rect * devicePixelRatio empty_rect)
       + Math_round (rect_height empty_rect * devicePixelRatio empty_rect) \<le> img_height demo_shot
   \<and> cropImage (Png demo_shot) empty_rect = Inl OutOfBounds"
  by (simp add: empty_rect_def demo_shot_def cropImage_def Let_def)

text \<open>
  Claim C2. With \<open>dpr\<close> the rectangle's ratio (1 in place of 0), the source size is clamped
  to \<open>min sw (width - sx)\<close> and \<open>min sh (height - sy)\<close>. On a decoded image \<open>cropImage\<close>
  rejects exactly when a clamped size is at most 0, with the out-of-bounds failure and no
  other; otherwise it resolves with an image of exactly the clamped size, which is positive.
\<close>

theorem cropImage_clamps:
  fixes img :: "('p::zero) image"
  assumes "dpr = (if devicePixelRatio rect = 0 then 1 else devicePixelRatio rect)"
    and "sx = Math_round (rect_x rect * dpr)" and "sy = Math_round (rect_y rect * dpr)"
    and "sw = Math_round (rect_width rect * dpr)" and "sh = Math_round (rect_height rect * dpr)"
    and "clampedSw = min sw (img_width img - sx)"
    and "clampedSh = min sh (img_height img - sy)"
  shows "(cropImage (Png img) rect = Inl OutOfBounds \<longleftrightarrow> clampedSw \<le> 0 \<or> clampedSh \<le> 0)
       \<and> (\<forall>err. cropImage (Png img) rect = Inl err \<longrightarrow> err = OutOfBounds)
       \<and> (\<not> (clampedSw \<le> 0 \<or> clampedSh \<le> 0) \<longrightarrow>
             (\<exists>out. cropImage (Png img) rect = Inr (Png out)
                    \<and> img_width out = clampedSw \<and> img_height out = clampedSh
                    \<and> 0 < img_width out \<and> 0 < img_height out))"
  using assms
  by (auto simp add: cropImage_def Let_def drawImage_def createCanvas_def)

text \<open>A rectangle 200 wide that starts 100 before the right edge: 100 by 100 pixels.\<close>

theorem cropImage_clamps_witness:
  "min (200::int) (img_width demo_shot - 1500) = 100
   \<and> (\<exists>out. cropImage (Png demo_shot) wide_rect = Inr (Png out)
          \<and> img_width out = 100 \<and> img_height out = 100)"
proof -
  have "\<not> ((100::int) \<le> 0 \<or> (100::int) \<le> 0) \<longrightarrow>
          (\<exists>out. cropImage (Png demo_shot) wide_rect = Inr (Png out)
                 \<and> img_width out = 100 \<and> img_height out = 100
                 \<and> 0 < img_width out \<and> 0 < img_height out)"
    by (rule cropImage_clamps [where dpr = 1 and sx = 1500 and sy = 20 and sw = 200 and sh = 100,
                               THEN conjunct2, THEN conjunct2])
       (simp_all add: wide_rect_def demo_shot_def)
  then show ?thesis by (auto simp add: demo_shot_def)
qed

section \<open>Properties of the visible intersection\<close>

text \<open>
  Claim C3, as the script has it. For an index in range, \<open>scrollAndGetRect\<close> reports
  \<open>x = max left 0\<close>, \<open>y = max top 0\<close>, and as width and height the rounded differences
  \<open>round (min right innerWidth - x)\<close> and \<open>round (min bottom innerHeight - y)\<close>. Nothing
  clamps them at zero: each is non-negative exactly when its difference is at least
  \<open>-1/2\<close>.
\<close>

theorem scrollAndGetRect_intersection:
  assumes "0 \<le> index" and "index < int (length (iframes pg))"
    and "box = iframes pg ! nat index"
  shows "\<exists>r. scrollAndGetRect pg index = Some r
           \<and> rect_x r = max (box_left box) 0
           \<and> rect_y r = max (box_top box) 0
           \<and> rect_width r = real_of_int (Math_round (min (box_right box) (innerWidth pg) - rect_x r))
           \<and> rect_height r = real_of_int (Math_round (min (box_bottom box) (innerHeight pg) - rect_y r))
           \<and> (0 \<le> rect_width r \<longleftrightarrow> - 1 / 2 \<le> min (box_right box) (innerWidth pg) - rect_x r)
           \<and> (0 \<le> rect_height r \<longleftrightarrow> - 1 / 2 \<le> min (box_bottom box) (innerHeight pg) - rect_y r)"
  using assms by (simp add: scrollAndGetRect_def Let_def Math_round_nonneg)

theorem scrollAndGetRect_intersection_witness:
  "(0::int) < int (length (iframes two_iframes))
   \<and> (\<exists>r. scrollAndGetRect two_iframes 0 = Some r \<and> rect_x r = 10 \<and> rect_y r = 10
          \<and> rect_width r = 20 \<and> rect_height r = 30)"
  using scrollAndGetRect_intersection [of 0 two_iframes "hd (iframes two_iframes)"]
  by (auto simp add: two_iframes_def)

text \<open>
  C3 as stated fails: the iframe of \<open>offscreen_page\<close> ends 100 pixels to the left of the
  window, and the width reported for it is \<open>-100\<close>.
\<close>

theorem scrollAndGetRect_negative_width:
  "scrollAndGetRect offscreen_page 0 =
     Some \<lparr>rect_x = 0, rect_y = 0, rect_width = - 100, rect_height = 100,
           fullWidth = 400, fullHeight = 100, devicePixelRatio = 1\<rparr>
   \<and> rect_width (the (scrollAndGetRect offscreen_page 0)) < 0"
  by (simp add: scrollAndGetRect_def offscreen_page_def Let_def)

section \<open>Properties of the capture pipeline\<close>

lemma run_append: "run sys (es @ es') = run (run sys es) es'"
  by (induction es arbitrary: sys) simp_all

text \<open>An invocation that has returned stays so, whatever happens afterwards.\<close>

lemma exec_finished:
  assumes "k < length (tasks sys)" and "tasks sys ! k = None"
  shows "k < length (tasks (exec sys e)) \<and> tasks (exec sys e) ! k = None"
proof (cases e)
  case (Reply k' r)
  show ?thesis
  proof (cases "k' = k")
    case True
    with assms Reply show ?thesis by simp
  next
    case False
    with assms Reply show ?thesis
      by (auto split: option.splits prod.splits)
  qed
qed (use assms in \<open>auto split: prod.splits simp: nth_append\<close>)

lemma run_finished:
  "k < length (tasks sys) \<Longrightarrow> tasks sys ! k = None \<Longrightarrow>
   k < length (tasks (run sys es)) \<and> tasks (run sys es) ! k = None"
proof (induction es arbitrary: sys)
  case Nil
  then show ?case by simp
next
  case (Cons e es)
  from exec_finished [OF Cons.prems] Cons.IH show ?case by simp
qed

subsection \<open>The run of two overlapping captures\<close>

lemma located:
  "scrollAndGetRect two_iframes 0 = Some rect_A"
  "scrollAndGetRect two_iframes 1 = Some rect_B"
  by (simp_all add: scrollAndGetRect_def two_iframes_def rect_A_def rect_B_def Let_def)

lemma cropped:
  "cropImage (Png small_shot) rect_A = Inr (Png crop_A)"
  "cropImage (Png small_shot) rect_B = Inr (Png crop_B)"
  by (simp_all add: cropImage_def rect_A_def rect_B_def small_shot_def crop_A_def crop_B_def
        Let_def)

lemma crop_sizes:
  "img_width crop_A = 20" "img_height crop_A = 30"
  "img_width crop_B = 40" "img_height crop_B = 40"
  by (simp_all add: crop_A_def crop_B_def drawImage_def createCanvas_def)

lemma run_both_started: "run sys0 both_started = sys_started"
  by (simp add: both_started_def sys0_def sys_started_def popup0_def openModal_def
        closeModal_def resetSnapshotPanel_def handleCapture_def)

lemma run_both_captured: "run sys_started both_captured = sys_captured"
  by (simp add: both_captured_def sys_started_def sys_captured_def located shot_response_def)
     (simp add: rect_A_def rect_B_def)

lemma run_B_cropped_loaded:
  "run sys_captured [Reply 1 CropSettled, Reply 1 ImgLoaded] = sys_B_done"
  by (simp add: sys_captured_def sys_started_def sys_B_done_def cropped)
     (simp add: snapshot_img_of_def crop_sizes finally_block_def zoomFit_def Let_def
        popup0_def zoom_init_def)

lemma run_B_completes: "run sys0 B_completes = sys_B_done"
  by (simp only: B_completes_def run_append run_both_started run_both_captured
        run_B_cropped_loaded)

lemma run_A_completes_late:
  "run sys0 A_completes_late =
     \<lparr>popup = popup0\<lparr>activeModalIndex := 1, lastSnapshotUrl := Png crop_A,
                      img_src := Png crop_A, img_onload := Some 0,
                      zoomState := \<lparr>scale = 1, tx = 190, ty = 135, fitScale = 1\<rparr>,
                      btn_capture_full := False, btn_capture_sm := True,
                      snap_idle_hidden := True, zoom_viewport_hidden := False,
                      zoom_controls_hidden := False, size_hint := HintSize 20 30\<rparr>,
      tasks = [None, None]\<rparr>"
  by (simp only: A_completes_late_def run_append run_B_completes)
     (simp add: sys_B_done_def cropped snapshot_img_of_def crop_sizes finally_block_def
        zoomFit_def Let_def popup0_def)

text \<open>
  Claim C4 fails on the script, which has no request token. Capture A is started for
  iframe 0, capture B for iframe 1 while A is suspended, and B's work completes before
  A's. When B has ended the popup shows B's crop; when A then resumes it publishes its
  own crop, and the popup, whose modal is open for iframe 1, is left with A's.
\<close>

theorem late_capture_overwrites_newer:
  "cropImage (Png small_shot) (the (scrollAndGetRect two_iframes 0)) = Inr (Png crop_A)
   \<and> cropImage (Png small_shot) (the (scrollAndGetRect two_iframes 1)) = Inr (Png crop_B)
   \<and> Png crop_A \<noteq> Png crop_B
   \<and> lastSnapshotUrl (popup (run sys0 B_completes)) = Png crop_B
   \<and> activeModalIndex (popup (run sys0 A_completes_late)) = 1
   \<and> lastSnapshotUrl (popup (run sys0 A_completes_late)) = Png crop_A
   \<and> img_src (popup (run sys0 A_completes_late)) = Png crop_A
   \<and> size_hint (popup (run sys0 A_completes_late)) = HintSize 20 30
   \<and> tasks (run sys0 A_completes_late) = [None, None]"
proof -
  have "img_width crop_A \<noteq> img_width crop_B" by (simp add: crop_sizes)
  then have "Png crop_A \<noteq> Png crop_B" by auto
  then show ?thesis
    by (simp add: located cropped run_B_completes run_A_completes_late sys_B_done_def)
qed

text \<open>
  Claim C4, as the script has it. An invocation publishes its own outcome when its own
  work completes, whatever the other invocations have done since it started: when its
  crop settles with an image, that image becomes the last snapshot and the source of the
  displayed image; when its crop fails, the failure is shown and the invocation ends.
\<close>

theorem capture_publishes_own_outcome:
  fixes sys :: "('p::zero) system"
  assumes "k < length (tasks sys)" and "tasks sys ! k = Some (AwaitCrop dataUrl rect)"
  shows "(\<forall>croppedUrl. cropImage dataUrl rect = Inr croppedUrl \<longrightarrow>
            lastSnapshotUrl (popup (exec sys (Reply k CropSettled))) = croppedUrl
          \<and> img_src (popup (exec sys (Reply k CropSettled))) = croppedUrl
          \<and> tasks (exec sys (Reply k CropSettled)) ! k = Some (AwaitImgLoad croppedUrl))
       \<and> (\<forall>err. cropImage dataUrl rect = Inl err \<longrightarrow>
            size_hint (popup (exec sys (Reply k CropSettled))) = HintFailed err
          \<and> tasks (exec sys (Reply k CropSettled)) ! k = None)"
  using assms by (simp add: throw_def finally_block_def catch_block_def)

theorem capture_publishes_own_outcome_witness:
  "tasks (run sys0 B_completes) ! 0 = Some (AwaitCrop (Png small_shot) rect_A)
   \<and> lastSnapshotUrl (popup (run sys0 B_completes)) = Png crop_B
   \<and> lastSnapshotUrl (popup (exec (run sys0 B_completes) (Reply 0 CropSettled))) = Png crop_A"
proof -
  have t: "tasks (run sys0 B_completes) ! 0 = Some (AwaitCrop (Png small_shot) rect_A)"
    and l: "0 < length (tasks (run sys0 B_completes))"
    and b: "lastSnapshotUrl (popup (run sys0 B_completes)) = Png crop_B"
    by (simp_all add: run_B_completes sys_B_done_def)
  from capture_publishes_own_outcome [OF l t] cropped(1)
  have "lastSnapshotUrl (popup (exec (run sys0 B_completes) (Reply 0 CropSettled))) = Png crop_A"
    by blast
  with t b show ?thesis by blast
qed

text \<open>
  Claim C5. When the injected function has resolved with a rectangle whose width or
  height is at most 0, the invocation throws the zero-size failure at once: the failure is
  shown, the last snapshot is untouched, and the invocation has returned without sending
  the capture message or cropping, and takes no further step in any continuation of the
  run.
\<close>

theorem zero_size_fails_before_capture:
  fixes sys :: "('p::zero) system"
  assumes "k < length (tasks sys)" and "tasks sys ! k = Some (AwaitScript captureIndex)"
    and "scrollAndGetRect pg captureIndex = Some rect"
    and "rect_width rect \<le> 0 \<or> rect_height rect \<le> 0"
  shows "resume k (popup sys) (AwaitScript captureIndex) (ScriptRan pg)
           = (finally_block (catch_block ZeroSize (popup sys)), None)
       \<and> size_hint (popup (exec sys (Reply k (ScriptRan pg)))) = HintFailed ZeroSize
       \<and> lastSnapshotUrl (popup (exec sys (Reply k (ScriptRan pg)))) = lastSnapshotUrl (popup sys)
       \<and> (\<forall>es. tasks (run (exec sys (Reply k (ScriptRan pg))) es) ! k = None)"
proof -
  let ?sys' = "exec sys (Reply k (ScriptRan pg))"
  have r: "resume k (popup sys) (AwaitScript captureIndex) (ScriptRan pg)
             = (finally_block (catch_block ZeroSize (popup sys)), None)"
    using assms(3,4) by (simp add: throw_def)
  have e: "?sys' = sys\<lparr>popup := finally_block (catch_block ZeroSize (popup sys)),
                       tasks := (tasks sys)[k := None]\<rparr>"
    using assms(1,2) r by simp
  have fin: "k < length (tasks ?sys')" "tasks ?sys' ! k = None"
    unfolding e using assms(1) by simp_all
  have "\<forall>es. tasks (run ?sys' es) ! k = None"
    using run_finished [OF fin] by blast
  moreover have "size_hint (popup ?sys') = HintFailed ZeroSize"
    unfolding e by (simp add: finally_block_def catch_block_def)
  moreover have "lastSnapshotUrl (popup ?sys') = lastSnapshotUrl (popup sys)"
    unfolding e by (simp add: finally_block_def catch_block_def)
  ultimately show ?thesis using r by blast
qed

text \<open>Capture B of the run above, located in a page whose iframe is 0 high.\<close>

theorem zero_size_fails_before_capture_witness:
  "tasks sys_started ! 1 = Some (AwaitScript 1)
   \<and> scrollAndGetRect flat_page 1 = Some flat_rect
   \<and> rect_height flat_rect \<le> 0
   \<and> size_hint (popup (exec sys_started (Reply 1 (ScriptRan flat_page)))) = HintFailed ZeroSize
   \<and> tasks (run (exec sys_started (Reply 1 (ScriptRan flat_page)))
               [Reply 1 shot_response, Reply 1 CropSettled]) ! 1 = None"
proof -
  have l: "1 < length (tasks sys_started)" and t: "tasks sys_started ! 1 = Some (AwaitScript 1)"
    by (simp_all add: sys_started_def)
  have s: "scrollAndGetRect flat_page 1 = Some flat_rect"
    by (simp add: scrollAndGetRect_def flat_page_def flat_rect_def Let_def)
  have h: "rect_height flat_rect \<le> 0"
    by (simp add: flat_rect_def)
  then have z: "rect_width flat_rect \<le> 0 \<or> rect_height flat_rect \<le> 0" by blast
  note th = zero_size_fails_before_capture [OF l t s z]
  from th have a: "size_hint (popup (exec sys_started (Reply 1 (ScriptRan flat_page))))
                     = HintFailed ZeroSize"
    by blast
  from th have b: "tasks (run (exec sys_started (Reply 1 (ScriptRan flat_page)))
                            [Reply 1 shot_response, Reply 1 CropSettled]) ! 1 = None"
    by blast
  from t s h a b show ?thesis by blast
qed

section \<open>Properties of the zoom engine\<close>

text \<open>
  Claim C6. Let the scale before the call be positive. After \<open>zoomAtPoint s2 px py\<close> the
  image coordinate under the anchor, \<open>((px - tx) / scale, (py - ty) / scale)\<close>, is what it
  was before the call, and that image coordinate is displayed at \<open>(px, py)\<close>. Over the
  reals the equalities are exact.
\<close>

theorem zoomAtPoint_keeps_anchor:
  assumes "0 < scale z"
  shows "(px - tx (zoomAtPoint s2 px py z)) / scale (zoomAtPoint s2 px py z) = (px - tx z) / scale z
       \<and> (py - ty (zoomAtPoint s2 px py z)) / scale (zoomAtPoint s2 px py z) = (py - ty z) / scale z
       \<and> tx (zoomAtPoint s2 px py z) + (px - tx z) / scale z * scale (zoomAtPoint s2 px py z) = px
       \<and> ty (zoomAtPoint s2 px py z) + (py - ty z) / scale z * scale (zoomAtPoint s2 px py z) = py"
proof -
  define ns :: real where "ns = max (5 / 100) (min 10 s2)"
  have ns: "ns \<noteq> 0" unfolding ns_def by simp
  have z': "zoomAtPoint s2 px py z =
      z\<lparr>tx := px - (px - tx z) / scale z * ns, ty := py - (py - ty z) / scale z * ns, scale := ns\<rparr>"
    by (simp add: zoomAtPoint_def Let_def ns_def)
  show ?thesis using ns by (simp add: z')
qed

text \<open>At half scale with the translation (20, 10), the point (100, 50) shows the image
  coordinate (160, 80); it still does after zooming to scale 2 at that point.\<close>

theorem zoomAtPoint_keeps_anchor_witness:
  "0 < scale half_zoom
   \<and> (100 - tx half_zoom) / scale half_zoom = 160
   \<and> (50 - ty half_zoom) / scale half_zoom = 80
   \<and> (100 - tx (zoomAtPoint 2 100 50 half_zoom)) / scale (zoomAtPoint 2 100 50 half_zoom) = 160
   \<and> (50 - ty (zoomAtPoint 2 100 50 half_zoom)) / scale (zoomAtPoint 2 100 50 half_zoom) = 80"
proof -
  have p: "0 < scale half_zoom"
    and x: "(100 - tx half_zoom) / scale half_zoom = 160"
    and y: "(50 - ty half_zoom) / scale half_zoom = 80"
    by (simp_all add: half_zoom_def)
  from zoomAtPoint_keeps_anchor [OF p, of 100 2 50] x y p show ?thesis by simp
qed

text \<open>
  Claim C7. Whatever scale is requested, the scale that \<open>zoomAtPoint\<close> stores lies
  between 0.05 and 10.
\<close>

theorem zoomAtPoint_scale_bounds:
  "5 / 100 \<le> scale (zoomAtPoint newScale vpX vpY z) \<and> scale (zoomAtPoint newScale vpX vpY z) \<le> 10"
  by (simp add: zoomAtPoint_def Let_def)

text \<open>
  Claim C8. For an image with positive natural width and height, \<open>zoomFit\<close> sets the fit
  scale to the smallest of the two ratios and 1, the scale to the fit scale, and the
  translation to half of what the scaled image leaves free; for a container of 800 by 600
  and an image of 400 by 300 that is scale 1 and translation (200, 150).
\<close>

theorem zoomFit_centres:
  assumes "0 < naturalWidth img" and "0 < naturalHeight img"
  shows "fitScale (zoomFit vp img z) =
           min (min (real (clientWidth vp) / real (naturalWidth img))
                    (real (clientHeight vp) / real (naturalHeight img))) 1
       \<and> scale (zoomFit vp img z) = fitScale (zoomFit vp img z)
       \<and> tx (zoomFit vp img z)
           = (real (clientWidth vp) - real (naturalWidth img) * scale (zoomFit vp img z)) / 2
       \<and> ty (zoomFit vp img z)
           = (real (clientHeight vp) - real (naturalHeight img) * scale (zoomFit vp img z)) / 2
       \<and> (clientWidth vp = 800 \<and> clientHeight vp = 600
            \<and> naturalWidth img = 400 \<and> naturalHeight img = 300
          \<longrightarrow> scale (zoomFit vp img z) = 1 \<and> tx (zoomFit vp img z) = 200
              \<and> ty (zoomFit vp img z) = 150)"
  using assms by (simp add: zoomFit_def Let_def)

theorem zoomFit_centres_witness:
  "0 < naturalWidth demo_img \<and> 0 < naturalHeight demo_img
   \<and> fitScale (zoomFit demo_viewport demo_img half_zoom) = 1
   \<and> scale (zoomFit demo_viewport demo_img half_zoom) = 1
   \<and> tx (zoomFit demo_viewport demo_img half_zoom) = 200
   \<and> ty (zoomFit demo_viewport demo_img half_zoom) = 150"
proof -
  have w: "0 < naturalWidth demo_img" and h: "0 < naturalHeight demo_img"
    by (simp_all add: demo_img_def)
  have d: "clientWidth demo_viewport = 800 \<and> clientHeight demo_viewport = 600
           \<and> naturalWidth demo_img = 400 \<and> naturalHeight demo_img = 300"
    by (simp add: demo_img_def demo_viewport_def)
  note th = zoomFit_centres [OF w h, of demo_viewport half_zoom]
  from th d have "scale (zoomFit demo_viewport demo_img half_zoom) = 1
      \<and> tx (zoomFit demo_viewport demo_img half_zoom) = 200
      \<and> ty (zoomFit demo_viewport demo_img half_zoom) = 150"
    by blast
  moreover from th have "scale (zoomFit demo_viewport demo_img half_zoom)
      = fitScale (zoomFit demo_viewport demo_img half_zoom)"
    by blast
  ultimately show ?thesis using w h by simp
qed

text \<open>
  Claim C9. When the image's natural width is 0, \<open>zoomFit\<close> returns the transform as it
  was, every field unchanged.
\<close>

theorem zoomFit_unloaded_image:
  "naturalWidth img = 0 \<Longrightarrow> zoomFit vp img z = z"
  by (simp add: zoomFit_def)

theorem zoomFit_unloaded_image_witness:
  "naturalWidth unloaded_img = 0 \<and> zoomFit demo_viewport unloaded_img half_zoom = half_zoom"
proof -
  have n: "naturalWidth unloaded_img = 0" by (simp add: unloaded_img_def)
  from zoomFit_unloaded_image [OF n] n show ?thesis by simp
qed

text \<open>A run of pointer moves during a drag leaves the drag as it is and the translation
  at what the last move sets.\<close>

lemma moves_during_drag:
  "dragState v = Some d \<Longrightarrow>
   handle_events vp img v (map (\<lambda>(cx, cy). MouseMove cx cy) (ms @ [(cx, cy)]))
     = v\<lparr>view := (view v)\<lparr>tx := tx0 d + (cx - startX d), ty := ty0 d + (cy - startY d)\<rparr>\<rparr>"
proof (induction ms arbitrary: v)
  case Nil
  then show ?case by (simp add: Let_def)
next
  case (Cons m ms)
  obtain mx my where m: "m = (mx, my)" by (cases m)
  let ?v1 = "handle_event vp img v (MouseMove mx my)"
  have d1: "dragState ?v1 = Some d" using Cons.prems by (simp add: Let_def)
  have "handle_events vp img v (map (\<lambda>(cx, cy). MouseMove cx cy) ((m # ms) @ [(cx, cy)]))
      = handle_events vp img ?v1 (map (\<lambda>(cx, cy). MouseMove cx cy) (ms @ [(cx, cy)]))"
    by (simp add: m)
  also have "\<dots> = ?v1\<lparr>view := (view ?v1)\<lparr>tx := tx0 d + (cx - startX d),
                                           ty := ty0 d + (cy - startY d)\<rparr>\<rparr>"
    by (rule Cons.IH [OF d1])
  also have "\<dots> = v\<lparr>view := (view v)\<lparr>tx := tx0 d + (cx - startX d),
                                       ty := ty0 d + (cy - startY d)\<rparr>\<rparr>"
    using Cons.prems by (simp add: Let_def)
  finally show ?case .
qed

text \<open>
  Claim C10. During a drag, a pointer move changes the viewer only in the two
  translations of its transform, which become the translation at the start of the drag
  plus the cursor's displacement since then, for every cursor position; the scale and the
  fit scale stay. So a drag that starts at \<open>(x0, y0)\<close> with the left button and ends at
  \<open>(cx, cy)\<close> has translated the view by \<open>(cx - x0, cy - y0)\<close> and changed nothing else
  of it.
\<close>

theorem pan_changes_translation_only:
  "(dragState v = Some d \<longrightarrow>
      handle_event vp img v (MouseMove cx cy)
        = v\<lparr>view := (view v)\<lparr>tx := tx0 d + (cx - startX d), ty := ty0 d + (cy - startY d)\<rparr>\<rparr>)
   \<and> view (handle_events vp img v
        (MouseDown 0 x0 y0 # map (\<lambda>(cx, cy). MouseMove cx cy) (ms @ [(cx, cy)])))
        = (view v)\<lparr>tx := tx (view v) + (cx - x0), ty := ty (view v) + (cy - y0)\<rparr>"
proof -
  let ?v0 = "handle_event vp img v (MouseDown 0 x0 y0)"
  let ?d = "\<lparr>startX = x0, startY = y0, tx0 = tx (view v), ty0 = ty (view v)\<rparr>"
  have d: "dragState ?v0 = Some ?d" by simp
  have "view (handle_events vp img ?v0 (map (\<lambda>(cx, cy). MouseMove cx cy) (ms @ [(cx, cy)])))
      = (view v)\<lparr>tx := tx (view v) + (cx - x0), ty := ty (view v) + (cy - y0)\<rparr>"
    by (simp only: moves_during_drag [OF d]) simp
  then show ?thesis by (simp add: Let_def)
qed

text \<open>A drag from (300, 200) over (10000, 200) to (-5000, -7000), far outside any
  container: the translation follows, the scale and the fit scale stay at one half.\<close>

theorem pan_changes_translation_only_witness:
  "dragState (handle_event demo_viewport demo_img idle_viewer (MouseDown 0 300 200))
     = Some \<lparr>startX = 300, startY = 200, tx0 = 20, ty0 = 10\<rparr>
   \<and> view (handle_event demo_viewport demo_img
        (handle_event demo_viewport demo_img idle_viewer (MouseDown 0 300 200))
        (MouseMove 10000 200))
       = \<lparr>scale = 1 / 2, tx = 9720, ty = 10, fitScale = 1 / 2\<rparr>
   \<and> view (handle_events demo_viewport demo_img idle_viewer
        [MouseDown 0 300 200, MouseMove 10000 200, MouseMove (- 5000) (- 7000)])
       = \<lparr>scale = 1 / 2, tx = - 5280, ty = - 7190, fitScale = 1 / 2\<rparr>"
proof -
  let ?v0 = "handle_event demo_viewport demo_img idle_viewer (MouseDown 0 300 200)"
  let ?d = "\<lparr>startX = 300, startY = 200, tx0 = 20, ty0 = 10\<rparr>"
  have d: "dragState ?v0 = Some ?d"
    by (simp add: idle_viewer_def half_zoom_def)
  from pan_changes_translation_only [of ?v0 ?d demo_viewport demo_img 10000 200] d
  have "handle_event demo_viewport demo_img ?v0 (MouseMove 10000 200)
      = ?v0\<lparr>view := (view ?v0)\<lparr>tx := tx0 ?d + (10000 - startX ?d),
                                   ty := ty0 ?d + (200 - startY ?d)\<rparr>\<rparr>"
    by blast
  then have a: "view (handle_event demo_viewport demo_img ?v0 (MouseMove 10000 200))
      = \<lparr>scale = 1 / 2, tx = 9720, ty = 10, fitScale = 1 / 2\<rparr>"
    by (simp add: idle_viewer_def half_zoom_def)
  from pan_changes_translation_only
    [of idle_viewer ?d demo_viewport demo_img "- 5000" "- 7000" 300 200 "[(10000, 200)]"]
  have "view (handle_events demo_viewport demo_img idle_viewer
        (MouseDown 0 300 200 # map (\<lambda>(cx, cy). MouseMove cx cy) ([(10000, 200)] @ [(- 5000, - 7000)])))
       = (view idle_viewer)\<lparr>tx := tx (view idle_viewer) + (- 5000 - 300),
                             ty := ty (view idle_viewer) + (- 7000 - 200)\<rparr>"
    by blast
  then have b: "view (handle_events demo_viewport demo_img idle_viewer
        [MouseDown 0 300 200, MouseMove 10000 200, MouseMove (- 5000) (- 7000)])
       = \<lparr>scale = 1 / 2, tx = - 5280, ty = - 7190, fitScale = 1 / 2\<rparr>"
    by (simp add: idle_viewer_def half_zoom_def)
  from d a b show ?thesis by blast
qed

end
